theory Spec2Isabelle
  imports Complex_Main "HOL-Library.Word" "HOL-Library.Monad_Syntax"
begin

unbundle bit_operations_syntax

section \<open>Numbers and bitwise operators of the source language\<close>

text \<open>
  The source is TypeScript. Every value of type \<open>number\<close> that the decoder handles as an
  integer (a byte, a 16-bit field, a bit mask, a motion or touch value) is an \<open>int\<close> here.
  The bitwise operators \<open><<\<close>, \<open>>>\<close>, \<open>&\<close> and \<open>|\<close> first convert their operands to a signed
  32-bit integer (ToInt32), work on the 32 bits and read the result as two's complement; that
  is written out with \<open>32 word\<close>. The normalised axis and trigger values are fractions; they are
  \<open>real\<close> here, so the arithmetic of \<open>mapAxis\<close> and \<open>mapTrigger\<close> is exact and the rounding of
  the source's binary floating point is not part of the model. A \<open>max\<close> of \<open>0\<close>, where the
  source divides by zero, is outside the model as well.
\<close>

definition js_shl :: "int \<Rightarrow> nat \<Rightarrow> int" where
  "js_shl a n = sint (push_bit n (word_of_int a :: 32 word))"

definition js_sar :: "int \<Rightarrow> nat \<Rightarrow> int" where
  "js_sar a n = sint (signed_drop_bit n (word_of_int a :: 32 word))"

definition js_and :: "int \<Rightarrow> int \<Rightarrow> int" where
  "js_and a b = sint ((word_of_int a :: 32 word) AND word_of_int b)"

definition js_or :: "int \<Rightarrow> int \<Rightarrow> int" where
  "js_or a b = sint ((word_of_int a :: 32 word) OR word_of_int b)"

section \<open>The byte accessor\<close>

text \<open>
  \<open>hid_provider.ts\<close> imports the interface \<open>ByteArray\<close> from \<open>./byte_array\<close>, which is not
  among the sources. A report buffer is a list of bytes; a read that fails is \<open>None\<close>.
\<close>

type_synonym ByteArray = "8 word list"

text \<open>
  Modelled from the spec: the byte accessor \<open>readUint8\<close> of the missing \<open>ByteArray\<close>
  interface. It returns the unsigned 8-bit value at a byte offset and fails with the
  out-of-range condition when the offset is not inside the buffer.
\<close>

definition readUint8 :: "ByteArray \<Rightarrow> nat \<Rightarrow> int option" where
  "readUint8 buf off = (if off < length buf then Some (uint (buf ! off)) else None)"

text \<open>
  Modelled from the spec: the byte accessor \<open>readUint16LE\<close> of the missing \<open>ByteArray\<close>
  interface. It returns the little-endian unsigned 16-bit value of the two bytes at
  \<open>off\<close> and \<open>off + 1\<close> and fails with the out-of-range condition when \<open>off + 1\<close> is not
  inside the buffer.
\<close>

definition readUint16LE :: "ByteArray \<Rightarrow> nat \<Rightarrow> int option" where
  "readUint16LE buf off =
     (if off + 1 < length buf
      then Some (uint (buf ! off) + 256 * uint (buf ! (off + 1)))
      else None)"

section \<open>Value mappers\<close>

text \<open>\<open>mapAxis(value, max = 255)\<close>: the callers that leave \<open>max\<close> out pass 255 here.\<close>

definition mapAxis :: "real \<Rightarrow> real \<Rightarrow> real" where
  "mapAxis val mx = (2 / mx) * max 0 (min mx val) - 1"

definition mapTrigger :: "real \<Rightarrow> real" where
  "mapTrigger val = (1 / 255) * max 0 (min 255 val)"

definition mapGyroAccel :: "int \<Rightarrow> int \<Rightarrow> int" where
  "mapGyroAccel v0 v1 =
     (let v = js_or (js_shl v1 8) v0
      in if v > 0x7fff then v - 0x10000 else v)"

text \<open>
  The two expressions that the decode routines pass to \<open>mapAxis\<close> for a touch slot:
  \<open>(buffer.readUint16LE(k) << 20) >> 20\<close> for X and \<open>buffer.readUint16LE(k + 1) >> 4\<close> for Y.
\<close>

definition touchX :: "int \<Rightarrow> int" where
  "touchX v = js_sar (js_shl v 20) 20"

definition touchY :: "int \<Rightarrow> int" where
  "touchY v = js_sar v 4"

text \<open>The clamp of the specification, \<open>clamp(v, lo, hi)\<close>, written as a case distinction.\<close>

definition clamp :: "real \<Rightarrow> real \<Rightarrow> real \<Rightarrow> real" where
  "clamp v lo hi = (if v < lo then lo else if hi < v then hi else v)"

section \<open>The decoded input state\<close>

record DualsenseHIDState =
  LeftAnalogX :: real
  LeftAnalogY :: real
  RightAnalogX :: real
  RightAnalogY :: real
  LeftTrigger :: real
  RightTrigger :: real
  Triangle :: bool
  Circle :: bool
  Cross :: bool
  Square :: bool
  Dpad :: int
  Up :: bool
  Down :: bool
  Left :: bool
  Right :: bool
  RightAnalogButton :: bool
  LeftAnalogButton :: bool
  Options :: bool
  Create :: bool
  RightTriggerButton :: bool
  LeftTriggerButton :: bool
  RightBumper :: bool
  LeftBumper :: bool
  Playstation :: bool
  TouchButton :: bool
  Mute :: bool
  Status :: bool
  TouchX0 :: real
  TouchY0 :: real
  TouchContact0 :: bool
  TouchId0 :: int
  TouchX1 :: real
  TouchY1 :: real
  TouchContact1 :: bool
  TouchId1 :: int
  GyroX :: int
  GyroY :: int
  GyroZ :: int
  AccelX :: int
  AccelY :: int
  AccelZ :: int

section \<open>The provider and its connection state\<close>

definition DUAL_SENSE_USB_INPUT_REPORT_0x01_SIZE :: nat where
  "DUAL_SENSE_USB_INPUT_REPORT_0x01_SIZE = 63"

definition DUAL_SENSE_BT_INPUT_REPORT_0x01_SIZE :: nat where
  "DUAL_SENSE_BT_INPUT_REPORT_0x01_SIZE = 9"

definition DUAL_SENSE_BT_INPUT_REPORT_0x31_SIZE :: nat where
  "DUAL_SENSE_BT_INPUT_REPORT_0x31_SIZE = 77"

text \<open>
  The only error that \<open>autodetectConnectionType\<close> builds: "Cannot autodetect connection
  type, unexpected buffer size: n", kept as the size \<open>n\<close>.
\<close>

datatype Error = CannotAutodetect nat

typedecl HIDDevice

text \<open>
  The fields of the abstract class \<open>HIDProvider\<close> that its own methods read or write.
  \<open>undefined\<close> is \<open>None\<close>. The callback \<open>onError\<close> is an effect: \<open>onErrorCalls\<close> is the list of
  the errors it has been called with, oldest first.
\<close>

record HIDProvider =
  device :: "HIDDevice option"
  wireless :: "bool option"
  buffer :: "ByteArray option"
  unknownDevice :: bool
  oldFirmware :: bool
  onErrorCalls :: "Error list"

definition onError :: "Error \<Rightarrow> HIDProvider \<Rightarrow> HIDProvider" where
  "onError e this = this\<lparr>onErrorCalls := onErrorCalls this @ [e]\<rparr>"

definition autodetectConnectionType :: "ByteArray \<Rightarrow> HIDProvider \<Rightarrow> HIDProvider" where
  "autodetectConnectionType buf this =
     (if length buf = DUAL_SENSE_USB_INPUT_REPORT_0x01_SIZE + 1
      then this\<lparr>wireless := Some False\<rparr>
      else if length buf = DUAL_SENSE_BT_INPUT_REPORT_0x31_SIZE + 1
      then this\<lparr>wireless := Some True\<rparr>
      else (let this1 = (if \<not> unknownDevice this
                         then onError (CannotAutodetect (length buf)) this
                         else this)
            in this1\<lparr>wireless := None, unknownDevice := True\<rparr>))"

definition reset :: "HIDProvider \<Rightarrow> HIDProvider" where
  "reset this = this\<lparr>device := None, wireless := None, buffer := None, unknownDevice := False\<rparr>"

text \<open>A run of \<open>autodetectConnectionType\<close> over the buffers that arrive, in order.\<close>

fun autodetectAll :: "ByteArray list \<Rightarrow> HIDProvider \<Rightarrow> HIDProvider" where
  "autodetectAll [] this = this"
| "autodetectAll (buf # bufs) this = autodetectAll bufs (autodetectConnectionType buf this)"

section \<open>The decode routines\<close>

text \<open>
  The three decode routines. The source builds the state as an object literal, whose
  properties are evaluated in the order they are written; each read of the buffer is bound
  in that order, so the first read that fails ends the routine. The record at the end lists
  the fields in the order of the interface \<open>DualsenseHIDState\<close>.
\<close>

definition processBluetoothInputReport01 :: "ByteArray \<Rightarrow> DualsenseHIDState option" where
  "processBluetoothInputReport01 buf = do {
     buttonsAndDpad \<leftarrow> readUint8 buf 7;
     let buttons = js_sar buttonsAndDpad 4;
     let dpad = js_and buttonsAndDpad 0b1111;
     miscButtons \<leftarrow> readUint8 buf 8;
     lastButtons \<leftarrow> readUint8 buf 9;
     leftAnalogX \<leftarrow> readUint8 buf 1;
     leftAnalogY \<leftarrow> readUint8 buf 2;
     rightAnalogX \<leftarrow> readUint8 buf 3;
     rightAnalogY \<leftarrow> readUint8 buf 4;
     leftTrigger \<leftarrow> readUint8 buf 8;
     rightTrigger \<leftarrow> readUint8 buf 9;
     gyroX0 \<leftarrow> readUint8 buf 16;
     gyroX1 \<leftarrow> readUint8 buf 17;
     gyroY0 \<leftarrow> readUint8 buf 18;
     gyroY1 \<leftarrow> readUint8 buf 19;
     gyroZ0 \<leftarrow> readUint8 buf 20;
     gyroZ1 \<leftarrow> readUint8 buf 21;
     accelX0 \<leftarrow> readUint8 buf 22;
     accelX1 \<leftarrow> readUint8 buf 23;
     accelY0 \<leftarrow> readUint8 buf 24;
     accelY1 \<leftarrow> readUint8 buf 25;
     accelZ0 \<leftarrow> readUint8 buf 26;
     accelZ1 \<leftarrow> readUint8 buf 27;
     touchId0 \<leftarrow> readUint8 buf 33;
     touchContact0 \<leftarrow> readUint8 buf 33;
     touchX0 \<leftarrow> readUint16LE buf 34;
     touchY0 \<leftarrow> readUint16LE buf 35;
     touchId1 \<leftarrow> readUint8 buf 37;
     touchContact1 \<leftarrow> readUint8 buf 37;
     touchX1 \<leftarrow> readUint16LE buf 38;
     touchY1 \<leftarrow> readUint16LE buf 39;
     status \<leftarrow> readUint8 buf 54;
     Some \<lparr>
       LeftAnalogX = mapAxis (real_of_int leftAnalogX) 255,
       LeftAnalogY = - mapAxis (real_of_int leftAnalogY) 255,
       RightAnalogX = mapAxis (real_of_int rightAnalogX) 255,
       RightAnalogY = - mapAxis (real_of_int rightAnalogY) 255,
       LeftTrigger = mapTrigger (real_of_int leftTrigger),
       RightTrigger = mapTrigger (real_of_int rightTrigger),
       Triangle = (js_and buttons 8 > 0),
       Circle = (js_and buttons 4 > 0),
       Cross = (js_and buttons 2 > 0),
       Square = (js_and buttons 1 > 0),
       Dpad = dpad,
       Up = (dpad < 2 \<or> dpad = 7),
       Down = (dpad > 2 \<and> dpad < 6),
       Left = (dpad > 4 \<and> dpad < 8),
       Right = (dpad > 0 \<and> dpad < 4),
       RightAnalogButton = (js_and miscButtons 128 > 0),
       LeftAnalogButton = (js_and miscButtons 64 > 0),
       Options = (js_and miscButtons 32 > 0),
       Create = (js_and miscButtons 16 > 0),
       RightTriggerButton = (js_and miscButtons 8 > 0),
       LeftTriggerButton = (js_and miscButtons 4 > 0),
       RightBumper = (js_and miscButtons 2 > 0),
       LeftBumper = (js_and miscButtons 1 > 0),
       Playstation = (js_and lastButtons 1 > 0),
       TouchButton = (js_and lastButtons 2 > 0),
       Mute = (js_and lastButtons 4 > 0),
       Status = (js_and status 4 > 0),
       TouchX0 = mapAxis (real_of_int (touchX touchX0)) 1920,
       TouchY0 = mapAxis (real_of_int (touchY touchY0)) 1080,
       TouchContact0 = (js_and touchContact0 0x80 = 0),
       TouchId0 = js_and touchId0 0x7f,
       TouchX1 = mapAxis (real_of_int (touchX touchX1)) 1920,
       TouchY1 = mapAxis (real_of_int (touchY touchY1)) 1080,
       TouchContact1 = (js_and touchContact1 0x80 = 0),
       TouchId1 = js_and touchId1 0x7f,
       GyroX = mapGyroAccel gyroX0 gyroX1,
       GyroY = mapGyroAccel gyroY0 gyroY1,
       GyroZ = mapGyroAccel gyroZ0 gyroZ1,
       AccelX = mapGyroAccel accelX0 accelX1,
       AccelY = mapGyroAccel accelY0 accelY1,
       AccelZ = mapGyroAccel accelZ0 accelZ1
     \<rparr>
   }"

text \<open>
  \<open>this.wireless ? 0 : 1\<close>: an undefined \<open>wireless\<close> is falsy, like \<open>false\<close>.
\<close>

definition processOldInputReport :: "ByteArray \<Rightarrow> HIDProvider \<Rightarrow> DualsenseHIDState option" where
  "processOldInputReport buf this = do {
     let offset = (if wireless this = Some True then 0 else 1 :: nat);
     buttonsAndDpad \<leftarrow> readUint8 buf (9 - offset);
     let buttons = js_sar buttonsAndDpad 4;
     let dpad = js_and buttonsAndDpad 0b1111;
     miscButtons \<leftarrow> readUint8 buf (10 - offset);
     lastButtons \<leftarrow> readUint8 buf (11 - offset);
     leftAnalogX \<leftarrow> readUint8 buf (2 - offset);
     leftAnalogY \<leftarrow> readUint8 buf (3 - offset);
     rightAnalogX \<leftarrow> readUint8 buf (4 - offset);
     rightAnalogY \<leftarrow> readUint8 buf (5 - offset);
     leftTrigger \<leftarrow> readUint8 buf (6 - offset);
     rightTrigger \<leftarrow> readUint8 buf (7 - offset);
     gyroX \<leftarrow> readUint16LE buf (17 - offset);
     gyroY \<leftarrow> readUint16LE buf (19 - offset);
     gyroZ \<leftarrow> readUint16LE buf (21 - offset);
     accelX \<leftarrow> readUint16LE buf (23 - offset);
     accelY \<leftarrow> readUint16LE buf (25 - offset);
     accelZ \<leftarrow> readUint16LE buf (27 - offset);
     touchId0 \<leftarrow> readUint8 buf (34 - offset);
     touchContact0 \<leftarrow> readUint8 buf (34 - offset);
     touchX0 \<leftarrow> readUint16LE buf (35 - offset);
     touchY0 \<leftarrow> readUint16LE buf (36 - offset);
     touchId1 \<leftarrow> readUint8 buf (38 - offset);
     touchContact1 \<leftarrow> readUint8 buf (38 - offset);
     touchX1 \<leftarrow> readUint16LE buf (39 - offset);
     touchY1 \<leftarrow> readUint16LE buf (40 - offset);
     status \<leftarrow> readUint8 buf (55 - offset);
     Some \<lparr>
       LeftAnalogX = mapAxis (real_of_int leftAnalogX) 255,
       LeftAnalogY = - mapAxis (real_of_int leftAnalogY) 255,
       RightAnalogX = mapAxis (real_of_int rightAnalogX) 255,
       RightAnalogY = - mapAxis (real_of_int rightAnalogY) 255,
       LeftTrigger = mapTrigger (real_of_int leftTrigger),
       RightTrigger = mapTrigger (real_of_int rightTrigger),
       Triangle = (js_and buttons 8 > 0),
       Circle = (js_and buttons 4 > 0),
       Cross = (js_and buttons 2 > 0),
       Square = (js_and buttons 1 > 0),
       Dpad = dpad,
       Up = (dpad < 2 \<or> dpad = 7),
       Down = (dpad > 2 \<and> dpad < 6),
       Left = (dpad > 4 \<and> dpad < 8),
       Right = (dpad > 0 \<and> dpad < 4),
       RightAnalogButton = (js_and miscButtons 128 > 0),
       LeftAnalogButton = (js_and miscButtons 64 > 0),
       Options = (js_and miscButtons 32 > 0),
       Create = (js_and miscButtons 16 > 0),
       RightTriggerButton = (js_and miscButtons 8 > 0),
       LeftTriggerButton = (js_and miscButtons 4 > 0),
       RightBumper = (js_and miscButtons 2 > 0),
       LeftBumper = (js_and miscButtons 1 > 0),
       Playstation = (js_and lastButtons 1 > 0),
       TouchButton = (js_and lastButtons 2 > 0),
       Mute = (js_and lastButtons 4 > 0),
       Status = (js_and status 4 > 0),
       TouchX0 = mapAxis (real_of_int (touchX touchX0)) 1920,
       TouchY0 = mapAxis (real_of_int (touchY touchY0)) 1080,
       TouchContact0 = (js_and touchContact0 0x80 = 0),
       TouchId0 = js_and touchId0 0x7f,
       TouchX1 = mapAxis (real_of_int (touchX touchX1)) 1920,
       TouchY1 = mapAxis (real_of_int (touchY touchY1)) 1080,
       TouchContact1 = (js_and touchContact1 0x80 = 0),
       TouchId1 = js_and touchId1 0x7f,
       GyroX = gyroX,
       GyroY = gyroY,
       GyroZ = gyroZ,
       AccelX = accelX,
       AccelY = accelY,
       AccelZ = accelZ
     \<rparr>
   }"

definition processUsbInputReport01 :: "ByteArray \<Rightarrow> DualsenseHIDState option" where
  "processUsbInputReport01 buf = do {
     buttonsAndDpad \<leftarrow> readUint8 buf 8;
     let buttons = js_sar buttonsAndDpad 4;
     let dpad = js_and buttonsAndDpad 0b1111;
     miscButtons \<leftarrow> readUint8 buf 9;
     lastButtons \<leftarrow> readUint8 buf 10;
     leftAnalogX \<leftarrow> readUint8 buf 1;
     leftAnalogY \<leftarrow> readUint8 buf 2;
     rightAnalogX \<leftarrow> readUint8 buf 3;
     rightAnalogY \<leftarrow> readUint8 buf 4;
     leftTrigger \<leftarrow> readUint8 buf 5;
     rightTrigger \<leftarrow> readUint8 buf 6;
     gyroX0 \<leftarrow> readUint8 buf 16;
     gyroX1 \<leftarrow> readUint8 buf 17;
     gyroY0 \<leftarrow> readUint8 buf 18;
     gyroY1 \<leftarrow> readUint8 buf 19;
     gyroZ0 \<leftarrow> readUint8 buf 20;
     gyroZ1 \<leftarrow> readUint8 buf 21;
     accelX0 \<leftarrow> readUint8 buf 22;
     accelX1 \<leftarrow> readUint8 buf 23;
     accelY0 \<leftarrow> readUint8 buf 24;
     accelY1 \<leftarrow> readUint8 buf 25;
     accelZ0 \<leftarrow> readUint8 buf 26;
     accelZ1 \<leftarrow> readUint8 buf 27;
     touchId0 \<leftarrow> readUint8 buf 33;
     touchContact0 \<leftarrow> readUint8 buf 33;
     touchX0 \<leftarrow> readUint16LE buf 34;
     touchY0 \<leftarrow> readUint16LE buf 35;
     touchId1 \<leftarrow> readUint8 buf 37;
     touchContact1 \<leftarrow> readUint8 buf 37;
     touchX1 \<leftarrow> readUint16LE buf 38;
     touchY1 \<leftarrow> readUint16LE buf 39;
     status \<leftarrow> readUint8 buf 54;
     Some \<lparr>
       LeftAnalogX = mapAxis (real_of_int leftAnalogX) 255,
       LeftAnalogY = - mapAxis (real_of_int leftAnalogY) 255,
       RightAnalogX = mapAxis (real_of_int rightAnalogX) 255,
       RightAnalogY = - mapAxis (real_of_int rightAnalogY) 255,
       LeftTrigger = mapTrigger (real_of_int leftTrigger),
       RightTrigger = mapTrigger (real_of_int rightTrigger),
       Triangle = (js_and buttons 8 > 0),
       Circle = (js_and buttons 4 > 0),
       Cross = (js_and buttons 2 > 0),
       Square = (js_and buttons 1 > 0),
       Dpad = dpad,
       Up = (dpad < 2 \<or> dpad = 7),
       Down = (dpad > 2 \<and> dpad < 6),
       Left = (dpad > 4 \<and> dpad < 8),
       Right = (dpad > 0 \<and> dpad < 4),
       RightAnalogButton = (js_and miscButtons 128 > 0),
       LeftAnalogButton = (js_and miscButtons 64 > 0),
       Options = (js_and miscButtons 32 > 0),
       Create = (js_and miscButtons 16 > 0),
       RightTriggerButton = (js_and miscButtons 8 > 0),
       LeftTriggerButton = (js_and miscButtons 4 > 0),
       RightBumper = (js_and miscButtons 2 > 0),
       LeftBumper = (js_and miscButtons 1 > 0),
       Playstation = (js_and lastButtons 1 > 0),
       TouchButton = (js_and lastButtons 2 > 0),
       Mute = (js_and lastButtons 4 > 0),
       Status = (js_and status 4 > 0),
       TouchX0 = mapAxis (real_of_int (touchX touchX0)) 1920,
       TouchY0 = mapAxis (real_of_int (touchY touchY0)) 1080,
       TouchContact0 = (js_and touchContact0 0x80 = 0),
       TouchId0 = js_and touchId0 0x7f,
       TouchX1 = mapAxis (real_of_int (touchX touchX1)) 1920,
       TouchY1 = mapAxis (real_of_int (touchY touchY1)) 1080,
       TouchContact1 = (js_and touchContact1 0x80 = 0),
       TouchId1 = js_and touchId1 0x7f,
       GyroX = mapGyroAccel gyroX0 gyroX1,
       GyroY = mapGyroAccel gyroY0 gyroY1,
       GyroZ = mapGyroAccel gyroZ0 gyroZ1,
       AccelX = mapGyroAccel accelX0 accelX1,
       AccelY = mapGyroAccel accelY0 accelY1,
       AccelZ = mapGyroAccel accelZ0 accelZ1
     \<rparr>
   }"

section \<open>A freshly constructed provider\<close>

text \<open>
  A provider as its field initialisers leave it: \<open>unknownDevice\<close> and \<open>oldFirmware\<close> are
  \<open>false\<close>, the optional fields are undefined and \<open>onError\<close> has not been called.
\<close>

definition initial_provider :: HIDProvider where
  "initial_provider =
     \<lparr>device = None, wireless = None, buffer = None, unknownDevice = False,
      oldFirmware = False, onErrorCalls = []\<rparr>"

section \<open>Auxiliary facts\<close>

subsection \<open>The bitwise operators on small operands\<close>

lemma js_shl_int: "js_shl a n = signed_take_bit 31 (push_bit n a)"
  by (simp add: js_shl_def sint_sbintrunc' flip: of_int_push_bit)

lemma js_or_int: "js_or a b = signed_take_bit 31 (a OR b)"
  by (simp add: js_or_def sint_sbintrunc' word_wi_log_defs)

lemma js_and_int: "js_and a b = signed_take_bit 31 (a AND b)"
  by (simp add: js_and_def sint_sbintrunc' word_wi_log_defs)

lemma js_sar_int: "js_sar a n = drop_bit n (signed_take_bit 31 a)"
  by (simp add: js_sar_def sint_signed_drop_bit_eq sint_sbintrunc')

lemma int32_small: "0 \<le> a \<Longrightarrow> a < 2147483648 \<Longrightarrow> signed_take_bit 31 a = (a::int)"
  by (simp add: signed_take_bit_int_eq_self)

lemma js_or_small:
  assumes "0 \<le> a" "a < 2147483648" "0 \<le> b" "b < 2147483648"
  shows "js_or a b = a OR b"
proof -
  have "a OR b < 2 ^ 31" using assms by (intro OR_upper) simp_all
  moreover have "0 \<le> a OR b" using assms by simp
  ultimately show ?thesis by (simp add: js_or_int int32_small)
qed

lemma js_and_small:
  assumes "0 \<le> b" "b < 2147483648"
  shows "js_and a b = a AND b"
proof -
  have "a AND b \<le> b" using assms by (intro AND_upper2)
  moreover have "0 \<le> a AND b" using assms by simp
  ultimately show ?thesis using assms by (simp add: js_and_int int32_small)
qed

lemma js_sar_small: "0 \<le> a \<Longrightarrow> a < 2147483648 \<Longrightarrow> js_sar a n = a div 2 ^ n"
  by (simp add: js_sar_int int32_small drop_bit_eq_div)

lemma uint_byte: "0 \<le> uint (b :: 8 word)" "uint (b :: 8 word) < 256" "uint (b :: 8 word) \<le> 255"
  using uint_lt2p [of b] by simp_all

lemma uint_and_15: "uint (b AND 15 :: 8 word) = uint b AND 15"
  by (simp add: uint_and)

lemma and_pos_imp_pos:
  assumes "0 < js_and a m" "0 \<le> m" "m < 2147483648"
  shows "a \<noteq> 0"
  using assms by (auto simp: js_and_small)

subsection \<open>Decoding succeeds exactly on buffers that are long enough\<close>

lemma bt_short: "length buf < 55 \<Longrightarrow> processBluetoothInputReport01 buf = None"
  by (simp add: processBluetoothInputReport01_def readUint8_def readUint16LE_def)

lemma usb_short: "length buf < 55 \<Longrightarrow> processUsbInputReport01 buf = None"
  by (simp add: processUsbInputReport01_def readUint8_def readUint16LE_def)

lemma old_short:
  "length buf < (if wireless this = Some True then 56 else 55) \<Longrightarrow>
   processOldInputReport buf this = None"
  by (auto simp: processOldInputReport_def readUint8_def readUint16LE_def Let_def split: if_splits)

lemma bt_long: "processBluetoothInputReport01 buf = Some st \<Longrightarrow> 55 \<le> length buf"
  using bt_short [of buf] by (cases "length buf < 55") simp_all

lemma usb_long: "processUsbInputReport01 buf = Some st \<Longrightarrow> 55 \<le> length buf"
  using usb_short [of buf] by (cases "length buf < 55") simp_all

lemma old_long:
  "processOldInputReport buf this = Some st \<Longrightarrow>
   (if wireless this = Some True then 56 else 55) \<le> length buf"
  using old_short [of buf this]
  by (cases "length buf < (if wireless this = Some True then 56 else 55)") simp_all

lemmas decode_defs =
  processBluetoothInputReport01_def processUsbInputReport01_def processOldInputReport_def
  readUint8_def readUint16LE_def Let_def

subsection \<open>Sixteen-bit values\<close>

lemma sint16: "sint (w :: 16 word) = (if uint w > 0x7fff then uint w - 0x10000 else uint w)"
proof -
  have b: "0 \<le> uint w" "uint w < 65536" using uint_lt2p [of w] by simp_all
  have "sint w = (uint w + 32768) mod 65536 - 32768"
    by (simp add: sint_uint signed_take_bit_eq_take_bit_shift take_bit_eq_mod)
  also have "(uint w + 32768) mod 65536 = (if uint w > 32767 then uint w - 32768 else uint w + 32768)"
  proof (cases "uint w > 32767")
    case True
    have "uint w + 32768 = (uint w - 32768) + 65536" by simp
    then have "(uint w + 32768) mod 65536 = ((uint w - 32768) + 65536) mod 65536"
      by (rule arg_cong)
    also have "\<dots> = (uint w - 32768) mod 65536" by (rule mod_add_self2)
    also have "\<dots> = uint w - 32768" using True b by simp
    finally show ?thesis using True by simp
  next
    case False
    then show ?thesis using b by simp
  qed
  finally show ?thesis by simp
qed

lemma bytes_or_bound:
  assumes "0 \<le> lo" "lo \<le> 255" "0 \<le> hi" "hi \<le> 255"
  shows "0 \<le> push_bit 8 hi OR lo" "push_bit 8 hi OR lo < (65536 :: int)"
proof -
  show "0 \<le> push_bit 8 hi OR lo" using assms by simp
  have "push_bit 8 hi OR lo < 2 ^ 16"
    using assms by (intro OR_upper) (simp_all add: push_bit_eq_mult)
  then show "push_bit 8 hi OR lo < (65536 :: int)" by simp
qed

lemma js_bytes_or:
  assumes "0 \<le> lo" "lo \<le> 255" "0 \<le> hi" "hi \<le> 255"
  shows "js_or (js_shl hi 8) lo = push_bit 8 hi OR lo"
proof -
  have s: "js_shl hi 8 = push_bit 8 hi"
    using assms by (simp add: js_shl_int push_bit_eq_mult int32_small)
  show ?thesis unfolding s using assms by (subst js_or_small) (simp_all add: push_bit_eq_mult)
qed

lemma word16_bytes_or:
  assumes "0 \<le> lo" "lo \<le> 255" "0 \<le> hi" "hi \<le> 255"
  shows "uint (push_bit 8 (word_of_int hi) OR word_of_int lo :: 16 word) = push_bit 8 hi OR lo"
proof -
  have "(push_bit 8 (word_of_int hi) OR word_of_int lo :: 16 word)
          = word_of_int (push_bit 8 hi OR lo)"
    by (simp add: word_wi_log_defs flip: of_int_push_bit)
  moreover have "uint (word_of_int k :: 16 word) = take_bit 16 k" for k
    by (simp add: uint_word_of_int_eq)
  moreover have "take_bit 16 (push_bit 8 hi OR lo) = push_bit 8 hi OR lo"
    using bytes_or_bound [OF assms] by (intro take_bit_int_eq_self) simp_all
  ultimately show ?thesis by (simp only:)
qed

subsection \<open>Ranges of the mapped values\<close>

lemma mapAxis_bounds: "0 < mx \<Longrightarrow> - 1 \<le> mapAxis v mx \<and> mapAxis v mx \<le> 1"
proof -
  assume mx: "0 < mx"
  let ?c = "max 0 (min mx v)"
  have c: "0 \<le> ?c" "?c \<le> mx" using mx by simp_all
  have "mapAxis v mx = 2 * (?c / mx) - 1" by (simp add: mapAxis_def)
  moreover have "0 \<le> ?c / mx" using c mx by simp
  moreover have "?c / mx \<le> 1" using c mx by simp
  ultimately show ?thesis by simp
qed

lemma mapTrigger_pos: "0 < v \<Longrightarrow> 0 < mapTrigger (real_of_int v)"
  by (simp add: mapTrigger_def)

lemma js_and_pos_byte:
  assumes "0 < js_and (uint (b :: 8 word)) m" "0 \<le> m" "m < 2147483648"
  shows "0 < uint b"
proof -
  have "uint b \<noteq> 0" using assms by (rule and_pos_imp_pos)
  moreover have "0 \<le> uint b" by simp
  ultimately show ?thesis by linarith
qed

lemma touchX_range: "- 2048 \<le> touchX v \<and> touchX v \<le> 2047"
proof -
  let ?s = "signed_take_bit 31 (push_bit 20 v) :: int"
  have t: "touchX v = ?s div 2 ^ 20"
    by (simp add: touchX_def js_sar_int js_shl_int drop_bit_eq_div)
  have lo: "- (2 ^ 31) \<le> ?s" by (rule signed_take_bit_int_greater_eq_minus_exp)
  have hi: "?s < 2 ^ 31" by (rule signed_take_bit_int_less_exp)
  have "(- (2 ^ 31)) div 2 ^ 20 \<le> ?s div 2 ^ 20" using lo by (intro zdiv_mono1) simp_all
  moreover have "?s div 2 ^ 20 \<le> (2 ^ 31 - 1) div 2 ^ 20" using hi by (intro zdiv_mono1) simp_all
  ultimately show ?thesis unfolding t by simp
qed

lemma touchY_range:
  assumes "0 \<le> v" "v \<le> 65535"
  shows "0 \<le> touchY v \<and> touchY v \<le> 4095"
proof -
  have t: "touchY v = v div 2 ^ 4" using assms by (simp add: touchY_def js_sar_small)
  have "v div 2 ^ 4 \<le> 65535 div 2 ^ 4" using assms by (intro zdiv_mono1) simp_all
  moreover have "0 \<le> v div 2 ^ 4" using assms by simp
  ultimately show ?thesis unfolding t by simp
qed

lemma readUint16LE_range:
  assumes "readUint16LE buf off = Some v"
  shows "0 \<le> v \<and> v \<le> 65535"
proof -
  have "v = uint (buf ! off) + 256 * uint (buf ! (off + 1))"
    using assms by (simp add: readUint16LE_def split: if_splits)
  then show ?thesis using uint_byte [of "buf ! off"] uint_byte [of "buf ! (off + 1)"] by simp
qed

lemmas autodetect_defs =
  autodetectConnectionType_def onError_def Let_def
  DUAL_SENSE_USB_INPUT_REPORT_0x01_SIZE_def DUAL_SENSE_BT_INPUT_REPORT_0x31_SIZE_def
  DUAL_SENSE_BT_INPUT_REPORT_0x01_SIZE_def

subsection \<open>Once the flag is set, no buffer clears it or reports an error\<close>

lemma unknown_sticky:
  "unknownDevice this \<Longrightarrow>
   unknownDevice (autodetectConnectionType buf this) \<and>
   onErrorCalls (autodetectConnectionType buf this) = onErrorCalls this"
  by (simp add: autodetect_defs)

lemma unknown_sticky_all:
  "unknownDevice this \<Longrightarrow>
   unknownDevice (autodetectAll bufs this) \<and>
   onErrorCalls (autodetectAll bufs this) = onErrorCalls this"
proof (induction bufs arbitrary: this)
  case Nil
  then show ?case by simp
next
  case (Cons buf bufs)
  from Cons.prems have u: "unknownDevice (autodetectConnectionType buf this)"
    and e: "onErrorCalls (autodetectConnectionType buf this) = onErrorCalls this"
    using unknown_sticky by blast+
  from Cons.IH [OF u] e show ?case by simp
qed

section \<open>The value mappers\<close>

text \<open>
  Claim C6. For bytes \<open>low\<close> and \<open>high\<close> in \<open>[0, 255]\<close>, \<open>mapGyroAccel(low, high)\<close> is the
  two's-complement reading of the 16-bit value \<open>(high << 8) | low\<close>, hence lies in
  \<open>[-32768, 32767]\<close>; and \<open>mapGyroAccel(0, 0) = 0\<close>, \<open>mapGyroAccel(0xFF, 0x7F) = 32767\<close>,
  \<open>mapGyroAccel(0x00, 0x80) = -32768\<close>.
\<close>

theorem mapGyroAccel_twos_complement:
  assumes "0 \<le> lo" "lo \<le> 255" "0 \<le> hi" "hi \<le> 255"
  shows "mapGyroAccel lo hi = sint (push_bit 8 (word_of_int hi) OR word_of_int lo :: 16 word) \<and>
         - 32768 \<le> mapGyroAccel lo hi \<and> mapGyroAccel lo hi \<le> 32767 \<and>
         mapGyroAccel 0 0 = 0 \<and>
         mapGyroAccel 0xFF 0x7F = 32767 \<and>
         mapGyroAccel 0x00 0x80 = - 32768"
proof -
  let ?w = "push_bit 8 (word_of_int hi) OR word_of_int lo :: 16 word"
  have eq: "mapGyroAccel lo hi = sint ?w"
    by (simp add: mapGyroAccel_def Let_def js_bytes_or [OF assms] sint16 word16_bytes_or [OF assms])
  have lower: "- 32768 \<le> sint ?w" using sint_ge [of ?w] by simp
  have upper: "sint ?w \<le> 32767" using sint_lt [of ?w] by simp
  have "mapGyroAccel 0 0 = 0" "mapGyroAccel 0xFF 0x7F = 32767" "mapGyroAccel 0x00 0x80 = - 32768"
    by (simp_all add: mapGyroAccel_def js_or_def js_shl_def)
  with eq lower upper show ?thesis by simp
qed

theorem mapGyroAccel_twos_complement_witness:
  "(0 :: int) \<le> 0x34 \<and> (0x34 :: int) \<le> 255 \<and> (0 :: int) \<le> 0xF2 \<and> (0xF2 :: int) \<le> 255 \<and>
   mapGyroAccel 0x34 0xF2 = sint (0xF234 :: 16 word) \<and> mapGyroAccel 0x34 0xF2 = - 3532"
proof -
  have h: "(0 :: int) \<le> 0x34" "(0x34 :: int) \<le> 255" "(0 :: int) \<le> 0xF2" "(0xF2 :: int) \<le> 255"
    by simp_all
  show ?thesis using mapGyroAccel_twos_complement [OF h] by simp
qed

text \<open>
  Claim C7. For a positive \<open>max\<close>, \<open>mapAxis(v, max)\<close> is \<open>(2 / max) * clamp(v, 0, max) - 1\<close>
  and lies in \<open>[-1, 1]\<close>; with \<open>max = 255\<close>: \<open>mapAxis(0) = -1\<close>, \<open>mapAxis(255) = 1\<close>,
  \<open>mapAxis(127)\<close> and \<open>mapAxis(128)\<close> are within \<open>1/127\<close> of \<open>0\<close>, and inputs outside \<open>[0, max]\<close>
  are clamped first: \<open>mapAxis(-5) = mapAxis(0)\<close> and \<open>mapAxis(9999) = mapAxis(255)\<close>.
\<close>

theorem mapAxis_clamped_linear:
  assumes "0 < mx"
  shows "mapAxis v mx = (2 / mx) * clamp v 0 mx - 1 \<and>
         - 1 \<le> mapAxis v mx \<and> mapAxis v mx \<le> 1 \<and>
         mapAxis 0 255 = - 1 \<and>
         mapAxis 255 255 = 1 \<and>
         \<bar>mapAxis 127 255\<bar> \<le> 1 / 127 \<and>
         \<bar>mapAxis 128 255\<bar> \<le> 1 / 127 \<and>
         mapAxis (- 5) 255 = mapAxis 0 255 \<and>
         mapAxis 9999 255 = mapAxis 255 255"
proof -
  have "max 0 (min mx v) = clamp v 0 mx" using assms by (simp add: clamp_def max_def min_def)
  then have "mapAxis v mx = (2 / mx) * clamp v 0 mx - 1" by (simp add: mapAxis_def)
  moreover have "mapAxis 0 255 = - 1" "mapAxis 255 255 = 1"
    "\<bar>mapAxis 127 255\<bar> \<le> 1 / 127" "\<bar>mapAxis 128 255\<bar> \<le> 1 / 127"
    "mapAxis (- 5) 255 = mapAxis 0 255" "mapAxis 9999 255 = mapAxis 255 255"
    by (simp_all add: mapAxis_def)
  ultimately show ?thesis using mapAxis_bounds [OF assms, of v] by simp
qed

theorem mapAxis_clamped_linear_witness:
  "(0 :: real) < 255 \<and> mapAxis 300 255 = (2 / 255) * clamp 300 0 255 - 1 \<and> mapAxis 300 255 = 1 \<and>
   mapAxis 51 255 = - (3 / 5)"
proof -
  have h: "(0 :: real) < 255" by simp
  show ?thesis
    using mapAxis_clamped_linear [OF h, of 300] mapAxis_clamped_linear [OF h, of 51]
    by (simp add: clamp_def)
qed

section \<open>The connection classifier\<close>

text \<open>
  Claim C2. A buffer of the wireless-reduced length (10 bytes, the declared size 9 of the
  Bluetooth report 0x01 plus the report id) is not matched by \<open>autodetectConnectionType\<close>:
  its \<open>switch\<close> has a case for the sizes of the USB report 0x01 and of the Bluetooth report
  0x31 only, so a 10-byte buffer takes the default branch. On a fresh provider the call
  reports the error, leaves \<open>wireless\<close> undefined and sets \<open>unknownDevice\<close>.
\<close>

theorem autodetect_reduced_report_unknown:
  "length (replicate 10 (0 :: 8 word)) = DUAL_SENSE_BT_INPUT_REPORT_0x01_SIZE + 1 \<and>
   autodetectConnectionType (replicate 10 0) initial_provider =
     initial_provider\<lparr>wireless := None, unknownDevice := True,
                        onErrorCalls := [CannotAutodetect 10]\<rparr>"
  by (simp add: autodetect_defs initial_provider_def)

text \<open>
  Claim C3, as stated, fails: a buffer of a recognised length does not clear
  \<open>unknownDevice\<close>. Starting with the flag set, a 64-byte buffer leaves it set, and a following
  5-byte buffer reports no error.
\<close>

theorem recognized_length_clears_flag_counterexample:
  "unknownDevice (initial_provider\<lparr>unknownDevice := True\<rparr>) \<and>
   length (replicate 64 (0 :: 8 word)) = DUAL_SENSE_USB_INPUT_REPORT_0x01_SIZE + 1 \<and>
   unknownDevice
     (autodetectConnectionType (replicate 64 0) (initial_provider\<lparr>unknownDevice := True\<rparr>)) \<and>
   onErrorCalls
     (autodetectConnectionType (replicate 5 0)
       (autodetectConnectionType (replicate 64 0)
         (initial_provider\<lparr>unknownDevice := True\<rparr>))) = []"
  by (simp add: autodetect_defs initial_provider_def)

text \<open>
  Claim C3, amended. With \<open>unknownDevice\<close> set, a buffer of a recognised length (64 or 78
  bytes) sets \<open>wireless\<close> and leaves the flag set, so a later buffer of an unrecognised
  length reports nothing; only \<open>reset\<close> clears the flag, and after \<open>reset\<close> a buffer of an
  unrecognised length reports the error again.
\<close>

theorem recognized_length_keeps_flag:
  assumes "unknownDevice this"
    and "length buf = DUAL_SENSE_USB_INPUT_REPORT_0x01_SIZE + 1 \<or>
         length buf = DUAL_SENSE_BT_INPUT_REPORT_0x31_SIZE + 1"
    and "length later \<noteq> DUAL_SENSE_USB_INPUT_REPORT_0x01_SIZE + 1"
    and "length later \<noteq> DUAL_SENSE_BT_INPUT_REPORT_0x31_SIZE + 1"
  shows "unknownDevice (autodetectConnectionType buf this) \<and>
         wireless (autodetectConnectionType buf this)
           = Some (length buf = DUAL_SENSE_BT_INPUT_REPORT_0x31_SIZE + 1) \<and>
         onErrorCalls (autodetectConnectionType later (autodetectConnectionType buf this))
           = onErrorCalls this \<and>
         \<not> unknownDevice (reset (autodetectConnectionType buf this)) \<and>
         onErrorCalls (autodetectConnectionType later (reset (autodetectConnectionType buf this)))
           = onErrorCalls this @ [CannotAutodetect (length later)]"
  using assms by (auto simp: autodetect_defs reset_def)

theorem recognized_length_keeps_flag_witness:
  "unknownDevice (initial_provider\<lparr>unknownDevice := True\<rparr>) \<and>
   length (replicate 78 (0 :: 8 word)) = DUAL_SENSE_BT_INPUT_REPORT_0x31_SIZE + 1 \<and>
   length (replicate 10 (0 :: 8 word)) \<noteq> DUAL_SENSE_USB_INPUT_REPORT_0x01_SIZE + 1 \<and>
   length (replicate 10 (0 :: 8 word)) \<noteq> DUAL_SENSE_BT_INPUT_REPORT_0x31_SIZE + 1 \<and>
   unknownDevice
     (autodetectConnectionType (replicate 78 0) (initial_provider\<lparr>unknownDevice := True\<rparr>)) \<and>
   wireless
     (autodetectConnectionType (replicate 78 0) (initial_provider\<lparr>unknownDevice := True\<rparr>))
       = Some True \<and>
   onErrorCalls
     (autodetectConnectionType (replicate 10 0)
       (autodetectConnectionType (replicate 78 0)
         (initial_provider\<lparr>unknownDevice := True\<rparr>))) = [] \<and>
   onErrorCalls
     (autodetectConnectionType (replicate 10 0)
       (reset (autodetectConnectionType (replicate 78 0)
         (initial_provider\<lparr>unknownDevice := True\<rparr>)))) = [CannotAutodetect 10]"
proof -
  have h1: "unknownDevice (initial_provider\<lparr>unknownDevice := True\<rparr>)" by simp
  have h2: "length (replicate 78 (0 :: 8 word)) = DUAL_SENSE_USB_INPUT_REPORT_0x01_SIZE + 1 \<or>
            length (replicate 78 (0 :: 8 word)) = DUAL_SENSE_BT_INPUT_REPORT_0x31_SIZE + 1"
    by (simp add: DUAL_SENSE_BT_INPUT_REPORT_0x31_SIZE_def)
  have h3: "length (replicate 10 (0 :: 8 word)) \<noteq> DUAL_SENSE_USB_INPUT_REPORT_0x01_SIZE + 1"
    by (simp add: DUAL_SENSE_USB_INPUT_REPORT_0x01_SIZE_def)
  have h4: "length (replicate 10 (0 :: 8 word)) \<noteq> DUAL_SENSE_BT_INPUT_REPORT_0x31_SIZE + 1"
    by (simp add: DUAL_SENSE_BT_INPUT_REPORT_0x31_SIZE_def)
  show ?thesis
    using recognized_length_keeps_flag [OF h1 h2 h3 h4] h1 h3 h4
    by (simp add: initial_provider_def DUAL_SENSE_BT_INPUT_REPORT_0x31_SIZE_def)
qed

text \<open>
  Claim C4. From a provider whose \<open>unknownDevice\<close> flag is clear, one buffer of an
  unrecognised length followed by any number of buffers of the same length calls \<open>onError\<close>
  exactly once, and the flag is set after the first buffer (and still after the last).
\<close>

theorem unrecognized_length_reported_once:
  assumes "\<not> unknownDevice this"
    and "length buf \<noteq> DUAL_SENSE_USB_INPUT_REPORT_0x01_SIZE + 1"
    and "length buf \<noteq> DUAL_SENSE_BT_INPUT_REPORT_0x31_SIZE + 1"
    and "\<forall>b \<in> set bufs. length b = length buf"
  shows "onErrorCalls (autodetectAll (buf # bufs) this)
           = onErrorCalls this @ [CannotAutodetect (length buf)] \<and>
         unknownDevice (autodetectConnectionType buf this) \<and>
         unknownDevice (autodetectAll (buf # bufs) this)"
proof -
  have u: "unknownDevice (autodetectConnectionType buf this)"
    and e: "onErrorCalls (autodetectConnectionType buf this)
              = onErrorCalls this @ [CannotAutodetect (length buf)]"
    using assms(1-3) by (simp_all add: autodetect_defs)
  from unknown_sticky_all [OF u, of bufs] u e show ?thesis by simp
qed

theorem unrecognized_length_reported_once_witness:
  "\<not> unknownDevice initial_provider \<and>
   length (replicate 10 (0 :: 8 word)) = DUAL_SENSE_BT_INPUT_REPORT_0x01_SIZE + 1 \<and>
   onErrorCalls (autodetectAll (replicate 10 0 # replicate 3 (replicate 10 0)) initial_provider)
     = [CannotAutodetect 10] \<and>
   unknownDevice (autodetectConnectionType (replicate 10 0) initial_provider)"
proof -
  have h1: "\<not> unknownDevice initial_provider" by (simp add: initial_provider_def)
  have h2: "length (replicate 10 (0 :: 8 word)) \<noteq> DUAL_SENSE_USB_INPUT_REPORT_0x01_SIZE + 1"
    by (simp add: DUAL_SENSE_USB_INPUT_REPORT_0x01_SIZE_def)
  have h3: "length (replicate 10 (0 :: 8 word)) \<noteq> DUAL_SENSE_BT_INPUT_REPORT_0x31_SIZE + 1"
    by (simp add: DUAL_SENSE_BT_INPUT_REPORT_0x31_SIZE_def)
  have h4: "\<forall>b \<in> set (replicate 3 (replicate 10 (0 :: 8 word))).
              length b = length (replicate 10 (0 :: 8 word))"
    by simp
  show ?thesis
    using unrecognized_length_reported_once [OF h1 h2 h3 h4] h1
    by (simp add: initial_provider_def DUAL_SENSE_BT_INPUT_REPORT_0x01_SIZE_def)
qed

section \<open>The decode routines\<close>

text \<open>
  Claim C1. On a buffer of the wireless-reduced length (10 bytes)
  \<open>processBluetoothInputReport01\<close> does not succeed: after the reads at offsets 1 to 9 it reads
  the motion bytes at offset 16 and beyond, which is out of range, so the routine fails and
  no state is produced.
\<close>

theorem bt_reduced_report_out_of_range:
  "length (replicate 10 (0 :: 8 word)) = DUAL_SENSE_BT_INPUT_REPORT_0x01_SIZE + 1 \<and>
   readUint8 (replicate 10 0) 9 = Some 0 \<and>
   readUint8 (replicate 10 0) 16 = None \<and>
   processBluetoothInputReport01 (replicate 10 0) = None"
  by (simp add: decode_defs DUAL_SENSE_BT_INPUT_REPORT_0x01_SIZE_def)

text \<open>
  Claim C5, as stated, fails: the values passed to \<open>mapAxis\<close> leave the touchpad resolution.
  In the 64-byte report below the first slot has X = 2047 (above 1920) and Y = 4080 (above
  1080), and the second slot has X = -2048 (below 0).
\<close>

theorem touch_within_resolution_counterexample:
  "map_option touchX (readUint16LE ((replicate 64 0)[34 := 0xFF, 35 := 0x07, 36 := 0xFF, 39 := 0x08]) 34)
     = Some 2047 \<and>
   map_option touchY (readUint16LE ((replicate 64 0)[34 := 0xFF, 35 := 0x07, 36 := 0xFF, 39 := 0x08]) 35)
     = Some 4080 \<and>
   map_option touchX (readUint16LE ((replicate 64 0)[34 := 0xFF, 35 := 0x07, 36 := 0xFF, 39 := 0x08]) 38)
     = Some (- 2048) \<and>
   map_option TouchX0
     (processUsbInputReport01 ((replicate 64 0)[34 := 0xFF, 35 := 0x07, 36 := 0xFF, 39 := 0x08]))
     = Some (mapAxis 2047 1920) \<and>
   map_option TouchY0
     (processUsbInputReport01 ((replicate 64 0)[34 := 0xFF, 35 := 0x07, 36 := 0xFF, 39 := 0x08]))
     = Some (mapAxis 4080 1080) \<and>
   map_option TouchX1
     (processUsbInputReport01 ((replicate 64 0)[34 := 0xFF, 35 := 0x07, 36 := 0xFF, 39 := 0x08]))
     = Some (mapAxis (- 2048) 1920)"
  by (simp add: decode_defs touchX_def touchY_def js_sar_def js_shl_def)

text \<open>
  Claim C5, amended. In each of the three decode routines the X value passed to \<open>mapAxis\<close>
  is the sign-extended low 12 bits of a 16-bit field and lies in \<open>[-2048, 2047]\<close>, and the Y
  value is the high 12 bits of a 16-bit field and lies in \<open>[0, 4095]\<close>; \<open>mapAxis\<close> clamps them
  to the resolution, so the decoded touch coordinates lie in \<open>[-1, 1]\<close>.
\<close>

theorem touch_raw_range_and_clamp:
  "(readUint16LE buf k = Some v \<longrightarrow>
      - 2048 \<le> touchX v \<and> touchX v \<le> 2047 \<and> 0 \<le> touchY v \<and> touchY v \<le> 4095 \<and>
      - 1 \<le> mapAxis (real_of_int (touchX v)) 1920 \<and> mapAxis (real_of_int (touchX v)) 1920 \<le> 1 \<and>
      - 1 \<le> mapAxis (real_of_int (touchY v)) 1080 \<and> mapAxis (real_of_int (touchY v)) 1080 \<le> 1) \<and>
   (processUsbInputReport01 buf = Some usb \<longrightarrow>
      Some (TouchX0 usb) = map_option (\<lambda>v. mapAxis (real_of_int (touchX v)) 1920) (readUint16LE buf 34) \<and>
      Some (TouchY0 usb) = map_option (\<lambda>v. mapAxis (real_of_int (touchY v)) 1080) (readUint16LE buf 35) \<and>
      Some (TouchX1 usb) = map_option (\<lambda>v. mapAxis (real_of_int (touchX v)) 1920) (readUint16LE buf 38) \<and>
      Some (TouchY1 usb) = map_option (\<lambda>v. mapAxis (real_of_int (touchY v)) 1080) (readUint16LE buf 39)) \<and>
   (processBluetoothInputReport01 buf = Some bt \<longrightarrow>
      Some (TouchX0 bt) = map_option (\<lambda>v. mapAxis (real_of_int (touchX v)) 1920) (readUint16LE buf 34) \<and>
      Some (TouchY0 bt) = map_option (\<lambda>v. mapAxis (real_of_int (touchY v)) 1080) (readUint16LE buf 35) \<and>
      Some (TouchX1 bt) = map_option (\<lambda>v. mapAxis (real_of_int (touchX v)) 1920) (readUint16LE buf 38) \<and>
      Some (TouchY1 bt) = map_option (\<lambda>v. mapAxis (real_of_int (touchY v)) 1080) (readUint16LE buf 39)) \<and>
   (processOldInputReport buf this = Some old \<and>
    off = (if wireless this = Some True then 0 else 1) \<longrightarrow>
      Some (TouchX0 old)
        = map_option (\<lambda>v. mapAxis (real_of_int (touchX v)) 1920) (readUint16LE buf (35 - off)) \<and>
      Some (TouchY0 old)
        = map_option (\<lambda>v. mapAxis (real_of_int (touchY v)) 1080) (readUint16LE buf (36 - off)) \<and>
      Some (TouchX1 old)
        = map_option (\<lambda>v. mapAxis (real_of_int (touchX v)) 1920) (readUint16LE buf (39 - off)) \<and>
      Some (TouchY1 old)
        = map_option (\<lambda>v. mapAxis (real_of_int (touchY v)) 1080) (readUint16LE buf (40 - off)))"
proof -
  have raw: "- 2048 \<le> touchX v \<and> touchX v \<le> 2047 \<and> 0 \<le> touchY v \<and> touchY v \<le> 4095"
    if "readUint16LE buf k = Some v"
    using readUint16LE_range [OF that] touchX_range [of v] touchY_range [of v] by simp
  have norm: "- 1 \<le> mapAxis w 1920 \<and> mapAxis w 1920 \<le> 1 \<and>
              - 1 \<le> mapAxis w 1080 \<and> mapAxis w 1080 \<le> 1" for w
    using mapAxis_bounds [of 1920 w] mapAxis_bounds [of 1080 w] by simp
  have usb:
    "Some (TouchX0 usb) = map_option (\<lambda>v. mapAxis (real_of_int (touchX v)) 1920) (readUint16LE buf 34) \<and>
     Some (TouchY0 usb) = map_option (\<lambda>v. mapAxis (real_of_int (touchY v)) 1080) (readUint16LE buf 35) \<and>
     Some (TouchX1 usb) = map_option (\<lambda>v. mapAxis (real_of_int (touchX v)) 1920) (readUint16LE buf 38) \<and>
     Some (TouchY1 usb) = map_option (\<lambda>v. mapAxis (real_of_int (touchY v)) 1080) (readUint16LE buf 39)"
    if "processUsbInputReport01 buf = Some usb"
    using that usb_long [OF that] by (auto simp: decode_defs)
  have bt:
    "Some (TouchX0 bt) = map_option (\<lambda>v. mapAxis (real_of_int (touchX v)) 1920) (readUint16LE buf 34) \<and>
     Some (TouchY0 bt) = map_option (\<lambda>v. mapAxis (real_of_int (touchY v)) 1080) (readUint16LE buf 35) \<and>
     Some (TouchX1 bt) = map_option (\<lambda>v. mapAxis (real_of_int (touchX v)) 1920) (readUint16LE buf 38) \<and>
     Some (TouchY1 bt) = map_option (\<lambda>v. mapAxis (real_of_int (touchY v)) 1080) (readUint16LE buf 39)"
    if "processBluetoothInputReport01 buf = Some bt"
    using that bt_long [OF that] by (auto simp: decode_defs)
  have old:
    "Some (TouchX0 old)
        = map_option (\<lambda>v. mapAxis (real_of_int (touchX v)) 1920) (readUint16LE buf (35 - off)) \<and>
     Some (TouchY0 old)
        = map_option (\<lambda>v. mapAxis (real_of_int (touchY v)) 1080) (readUint16LE buf (36 - off)) \<and>
     Some (TouchX1 old)
        = map_option (\<lambda>v. mapAxis (real_of_int (touchX v)) 1920) (readUint16LE buf (39 - off)) \<and>
     Some (TouchY1 old)
        = map_option (\<lambda>v. mapAxis (real_of_int (touchY v)) 1080) (readUint16LE buf (40 - off))"
    if "processOldInputReport buf this = Some old"
      and "off = (if wireless this = Some True then 0 else 1)"
    using that old_long [OF that(1)] by (auto simp: decode_defs split: if_splits)
  show ?thesis
    using raw norm [of "real_of_int (touchX v)"] norm [of "real_of_int (touchY v)"] usb bt old
    by blast
qed

theorem touch_raw_range_and_clamp_witness:
  "map_option (\<lambda>s. (TouchX0 s, TouchY0 s, TouchX1 s))
     (processUsbInputReport01 ((replicate 64 0)[34 := 0xFF, 35 := 0x07, 36 := 0xFF, 39 := 0x08]))
     = Some (1, 1, - 1) \<and>
   map_option (\<lambda>s. (TouchX0 s, TouchY0 s, TouchX1 s))
     (processBluetoothInputReport01 ((replicate 64 0)[34 := 0xFF, 35 := 0x07, 36 := 0xFF, 39 := 0x08]))
     = Some (1, 1, - 1) \<and>
   map_option (\<lambda>s. (TouchX0 s, TouchY0 s, TouchX1 s))
     (processOldInputReport ((replicate 64 0)[34 := 0xFF, 35 := 0x07, 36 := 0xFF, 39 := 0x08])
        initial_provider)
     = Some (1, 1, - 1) \<and>
   touchX 2047 = 2047 \<and> touchY 65287 = 4080 \<and> touchX 2048 = - 2048"
proof -
  let ?b = "(replicate 64 0)[34 := 0xFF, 35 := 0x07, 36 := 0xFF, 39 := 0x08] :: ByteArray"
  obtain usb where usb: "processUsbInputReport01 ?b = Some usb"
    by (simp add: decode_defs)
  obtain bt where bt: "processBluetoothInputReport01 ?b = Some bt"
    by (simp add: decode_defs)
  obtain old where old: "processOldInputReport ?b initial_provider = Some old"
    by (simp add: decode_defs initial_provider_def)
  have w: "(if wireless initial_provider = Some True then 0 else 1) = (1 :: nat)"
    by (simp add: initial_provider_def)
  have x: "readUint16LE ?b 34 = Some 2047" "readUint16LE ?b 35 = Some 65287"
    "readUint16LE ?b 38 = Some 2048"
    by (simp_all add: readUint16LE_def)
  have v: "touchX 2047 = 2047" "touchY 65287 = 4080" "touchX 2048 = - 2048"
    by (simp_all add: touchX_def touchY_def js_sar_def js_shl_def)
  show ?thesis
    using touch_raw_range_and_clamp [where buf = ?b and k = 34 and v = 2047 and usb = usb
                                       and bt = bt and old = old and this = initial_provider
                                       and off = 1]
          usb bt old w x v
    by (simp add: mapAxis_def)
qed

text \<open>
  Claim C8. In each of the three decode routines the d-pad value is the low nibble of the
  buttons-and-d-pad byte and the four directions are exactly \<open>Up = (value < 2 or value = 7)\<close>,
  \<open>Down = (2 < value < 6)\<close>, \<open>Left = (4 < value < 8)\<close>, \<open>Right = (0 < value < 4)\<close>; so the
  neutral value 8 gives no direction and the value 2 is neither Up nor Down.
\<close>

theorem dpad_decomposition:
  "(processUsbInputReport01 buf = Some usb \<longrightarrow>
      Dpad usb = uint (buf ! 8 AND 15) \<and>
      Up usb = (Dpad usb < 2 \<or> Dpad usb = 7) \<and>
      Down usb = (2 < Dpad usb \<and> Dpad usb < 6) \<and>
      Left usb = (4 < Dpad usb \<and> Dpad usb < 8) \<and>
      Right usb = (0 < Dpad usb \<and> Dpad usb < 4) \<and>
      (Dpad usb = 8 \<longrightarrow> \<not> Up usb \<and> \<not> Down usb \<and> \<not> Left usb \<and> \<not> Right usb) \<and>
      (Dpad usb = 2 \<longrightarrow> \<not> Up usb \<and> \<not> Down usb)) \<and>
   (processBluetoothInputReport01 buf = Some bt \<longrightarrow>
      Dpad bt = uint (buf ! 7 AND 15) \<and>
      Up bt = (Dpad bt < 2 \<or> Dpad bt = 7) \<and>
      Down bt = (2 < Dpad bt \<and> Dpad bt < 6) \<and>
      Left bt = (4 < Dpad bt \<and> Dpad bt < 8) \<and>
      Right bt = (0 < Dpad bt \<and> Dpad bt < 4) \<and>
      (Dpad bt = 8 \<longrightarrow> \<not> Up bt \<and> \<not> Down bt \<and> \<not> Left bt \<and> \<not> Right bt) \<and>
      (Dpad bt = 2 \<longrightarrow> \<not> Up bt \<and> \<not> Down bt)) \<and>
   (processOldInputReport buf this = Some old \<longrightarrow>
      Dpad old = uint (buf ! (if wireless this = Some True then 9 else 8) AND 15) \<and>
      Up old = (Dpad old < 2 \<or> Dpad old = 7) \<and>
      Down old = (2 < Dpad old \<and> Dpad old < 6) \<and>
      Left old = (4 < Dpad old \<and> Dpad old < 8) \<and>
      Right old = (0 < Dpad old \<and> Dpad old < 4) \<and>
      (Dpad old = 8 \<longrightarrow> \<not> Up old \<and> \<not> Down old \<and> \<not> Left old \<and> \<not> Right old) \<and>
      (Dpad old = 2 \<longrightarrow> \<not> Up old \<and> \<not> Down old))"
proof -
  have d: "(d = 8 \<longrightarrow> \<not> (d < 2 \<or> d = 7) \<and> \<not> (2 < d \<and> d < 6) \<and> \<not> (4 < d \<and> d < 8) \<and> \<not> (0 < d \<and> d < 4)) \<and>
           (d = 2 \<longrightarrow> \<not> (d < 2 \<or> d = 7) \<and> \<not> (2 < d \<and> d < 6))" for d :: int
    by simp
  have usb: "Dpad usb = uint (buf ! 8 AND 15) \<and>
      Up usb = (Dpad usb < 2 \<or> Dpad usb = 7) \<and>
      Down usb = (2 < Dpad usb \<and> Dpad usb < 6) \<and>
      Left usb = (4 < Dpad usb \<and> Dpad usb < 8) \<and>
      Right usb = (0 < Dpad usb \<and> Dpad usb < 4)"
    if "processUsbInputReport01 buf = Some usb"
    using that usb_long [OF that] by (auto simp: decode_defs js_and_small uint_and_15)
  have bt: "Dpad bt = uint (buf ! 7 AND 15) \<and>
      Up bt = (Dpad bt < 2 \<or> Dpad bt = 7) \<and>
      Down bt = (2 < Dpad bt \<and> Dpad bt < 6) \<and>
      Left bt = (4 < Dpad bt \<and> Dpad bt < 8) \<and>
      Right bt = (0 < Dpad bt \<and> Dpad bt < 4)"
    if "processBluetoothInputReport01 buf = Some bt"
    using that bt_long [OF that] by (auto simp: decode_defs js_and_small uint_and_15)
  have old: "Dpad old = uint (buf ! (if wireless this = Some True then 9 else 8) AND 15) \<and>
      Up old = (Dpad old < 2 \<or> Dpad old = 7) \<and>
      Down old = (2 < Dpad old \<and> Dpad old < 6) \<and>
      Left old = (4 < Dpad old \<and> Dpad old < 8) \<and>
      Right old = (0 < Dpad old \<and> Dpad old < 4)"
    if "processOldInputReport buf this = Some old"
    using that old_long [OF that]
    by (auto simp: decode_defs js_and_small uint_and_15 split: if_splits)
  show ?thesis using usb bt old d [of "Dpad usb"] d [of "Dpad bt"] d [of "Dpad old"] by simp
qed

theorem dpad_decomposition_witness:
  "map_option (\<lambda>s. (Dpad s, Up s, Down s, Left s, Right s))
     (processUsbInputReport01 ((replicate 64 0)[8 := 0x18])) = Some (8, False, False, False, False) \<and>
   map_option (\<lambda>s. (Dpad s, Up s, Down s, Left s, Right s))
     (processBluetoothInputReport01 ((replicate 64 0)[7 := 0x82])) = Some (2, False, False, False, True) \<and>
   map_option (\<lambda>s. (Dpad s, Up s, Down s, Left s, Right s))
     (processOldInputReport ((replicate 64 0)[8 := 0x07]) initial_provider)
       = Some (7, True, False, True, False)"
proof -
  obtain usb where usb: "processUsbInputReport01 ((replicate 64 0)[8 := 0x18]) = Some usb"
    by (simp add: decode_defs)
  obtain bt where bt: "processBluetoothInputReport01 ((replicate 64 0)[7 := 0x82]) = Some bt"
    by (simp add: decode_defs)
  obtain old where old:
    "processOldInputReport ((replicate 64 0)[8 := 0x07]) initial_provider = Some old"
    by (simp add: decode_defs initial_provider_def)
  have w: "wireless initial_provider \<noteq> Some True" by (simp add: initial_provider_def)
  show ?thesis
    using dpad_decomposition [where buf = "(replicate 64 0)[8 := 0x18]" and usb = usb]
          dpad_decomposition [where buf = "(replicate 64 0)[7 := 0x82]" and bt = bt]
          dpad_decomposition [where buf = "(replicate 64 0)[8 := 0x07]" and old = old
                                and this = initial_provider]
          usb bt old w
    by simp
qed

text \<open>
  Claim C9. \<open>processOldInputReport\<close> returns each of the six motion fields as the raw
  little-endian unsigned 16-bit value of its two bytes, with no sign adjustment, so each
  lies in \<open>[0, 65535]\<close>; \<open>processUsbInputReport01\<close> and \<open>processBluetoothInputReport01\<close> decode
  the six fields with \<open>mapGyroAccel\<close> from the low and the high byte.
\<close>

theorem motion_decoding:
  "(processOldInputReport buf this = Some old \<and> off = (if wireless this = Some True then 0 else 1) \<longrightarrow>
      GyroX old = uint (buf ! (17 - off)) + 256 * uint (buf ! (18 - off)) \<and>
      GyroY old = uint (buf ! (19 - off)) + 256 * uint (buf ! (20 - off)) \<and>
      GyroZ old = uint (buf ! (21 - off)) + 256 * uint (buf ! (22 - off)) \<and>
      AccelX old = uint (buf ! (23 - off)) + 256 * uint (buf ! (24 - off)) \<and>
      AccelY old = uint (buf ! (25 - off)) + 256 * uint (buf ! (26 - off)) \<and>
      AccelZ old = uint (buf ! (27 - off)) + 256 * uint (buf ! (28 - off)) \<and>
      0 \<le> GyroX old \<and> GyroX old \<le> 65535 \<and> 0 \<le> GyroY old \<and> GyroY old \<le> 65535 \<and>
      0 \<le> GyroZ old \<and> GyroZ old \<le> 65535 \<and> 0 \<le> AccelX old \<and> AccelX old \<le> 65535 \<and>
      0 \<le> AccelY old \<and> AccelY old \<le> 65535 \<and> 0 \<le> AccelZ old \<and> AccelZ old \<le> 65535) \<and>
   (processUsbInputReport01 buf = Some usb \<longrightarrow>
      GyroX usb = mapGyroAccel (uint (buf ! 16)) (uint (buf ! 17)) \<and>
      GyroY usb = mapGyroAccel (uint (buf ! 18)) (uint (buf ! 19)) \<and>
      GyroZ usb = mapGyroAccel (uint (buf ! 20)) (uint (buf ! 21)) \<and>
      AccelX usb = mapGyroAccel (uint (buf ! 22)) (uint (buf ! 23)) \<and>
      AccelY usb = mapGyroAccel (uint (buf ! 24)) (uint (buf ! 25)) \<and>
      AccelZ usb = mapGyroAccel (uint (buf ! 26)) (uint (buf ! 27))) \<and>
   (processBluetoothInputReport01 buf = Some bt \<longrightarrow>
      GyroX bt = mapGyroAccel (uint (buf ! 16)) (uint (buf ! 17)) \<and>
      GyroY bt = mapGyroAccel (uint (buf ! 18)) (uint (buf ! 19)) \<and>
      GyroZ bt = mapGyroAccel (uint (buf ! 20)) (uint (buf ! 21)) \<and>
      AccelX bt = mapGyroAccel (uint (buf ! 22)) (uint (buf ! 23)) \<and>
      AccelY bt = mapGyroAccel (uint (buf ! 24)) (uint (buf ! 25)) \<and>
      AccelZ bt = mapGyroAccel (uint (buf ! 26)) (uint (buf ! 27)))"
proof -
  have b: "0 \<le> uint x + 256 * uint y \<and> uint x + 256 * uint y \<le> 65535" for x y :: "8 word"
    using uint_byte [of x] uint_byte [of y] by simp
  have old: "GyroX old = uint (buf ! (17 - off)) + 256 * uint (buf ! (18 - off)) \<and>
      GyroY old = uint (buf ! (19 - off)) + 256 * uint (buf ! (20 - off)) \<and>
      GyroZ old = uint (buf ! (21 - off)) + 256 * uint (buf ! (22 - off)) \<and>
      AccelX old = uint (buf ! (23 - off)) + 256 * uint (buf ! (24 - off)) \<and>
      AccelY old = uint (buf ! (25 - off)) + 256 * uint (buf ! (26 - off)) \<and>
      AccelZ old = uint (buf ! (27 - off)) + 256 * uint (buf ! (28 - off))"
    if "processOldInputReport buf this = Some old"
      and "off = (if wireless this = Some True then 0 else 1)"
    using that old_long [OF that(1)] by (auto simp: decode_defs split: if_splits)
  have usb: "GyroX usb = mapGyroAccel (uint (buf ! 16)) (uint (buf ! 17)) \<and>
      GyroY usb = mapGyroAccel (uint (buf ! 18)) (uint (buf ! 19)) \<and>
      GyroZ usb = mapGyroAccel (uint (buf ! 20)) (uint (buf ! 21)) \<and>
      AccelX usb = mapGyroAccel (uint (buf ! 22)) (uint (buf ! 23)) \<and>
      AccelY usb = mapGyroAccel (uint (buf ! 24)) (uint (buf ! 25)) \<and>
      AccelZ usb = mapGyroAccel (uint (buf ! 26)) (uint (buf ! 27))"
    if "processUsbInputReport01 buf = Some usb"
    using that usb_long [OF that] by (auto simp: decode_defs)
  have bt: "GyroX bt = mapGyroAccel (uint (buf ! 16)) (uint (buf ! 17)) \<and>
      GyroY bt = mapGyroAccel (uint (buf ! 18)) (uint (buf ! 19)) \<and>
      GyroZ bt = mapGyroAccel (uint (buf ! 20)) (uint (buf ! 21)) \<and>
      AccelX bt = mapGyroAccel (uint (buf ! 22)) (uint (buf ! 23)) \<and>
      AccelY bt = mapGyroAccel (uint (buf ! 24)) (uint (buf ! 25)) \<and>
      AccelZ bt = mapGyroAccel (uint (buf ! 26)) (uint (buf ! 27))"
    if "processBluetoothInputReport01 buf = Some bt"
    using that bt_long [OF that] by (auto simp: decode_defs)
  show ?thesis using old usb bt b by simp
qed

theorem motion_decoding_witness:
  "map_option (\<lambda>s. (GyroX s, AccelZ s))
     (processOldInputReport (replicate 64 0xFF) initial_provider) = Some (65535, 65535) \<and>
   map_option (\<lambda>s. (GyroX s, AccelZ s))
     (processUsbInputReport01 (replicate 64 0xFF)) = Some (- 1, - 1) \<and>
   map_option (\<lambda>s. (GyroX s, AccelZ s))
     (processBluetoothInputReport01 (replicate 64 0xFF)) = Some (- 1, - 1)"
proof -
  obtain old where old: "processOldInputReport (replicate 64 0xFF) initial_provider = Some old"
    by (simp add: decode_defs initial_provider_def)
  obtain usb where usb: "processUsbInputReport01 (replicate 64 0xFF) = Some usb"
    by (simp add: decode_defs)
  obtain bt where bt: "processBluetoothInputReport01 (replicate 64 0xFF) = Some bt"
    by (simp add: decode_defs)
  have w: "(if wireless initial_provider = Some True then 0 else 1) = (1 :: nat)"
    by (simp add: initial_provider_def)
  have m: "mapGyroAccel 255 255 = - 1"
    by (simp add: mapGyroAccel_def js_or_def js_shl_def)
  show ?thesis
    using motion_decoding [where buf = "replicate 64 0xFF" and this = initial_provider
                             and old = old and usb = usb and bt = bt and off = 1]
          old usb bt w m
    by simp
qed

text \<open>
  Claim C10. In \<open>processBluetoothInputReport01\<close> the left trigger is mapped from the byte at
  offset 8, which is also the misc-button mask, and the right trigger from the byte at
  offset 9, which is also the last-button mask. So whenever one of the eight misc buttons is
  decoded as pressed the left trigger is positive, and whenever Playstation, TouchButton or
  Mute is decoded as pressed the right trigger is positive.
\<close>

theorem reduced_report_triggers_share_button_bytes:
  assumes "processBluetoothInputReport01 buf = Some st"
  shows "LeftTrigger st = mapTrigger (real_of_int (uint (buf ! 8))) \<and>
         RightTrigger st = mapTrigger (real_of_int (uint (buf ! 9))) \<and>
         LeftBumper st = (0 < js_and (uint (buf ! 8)) 1) \<and>
         RightBumper st = (0 < js_and (uint (buf ! 8)) 2) \<and>
         LeftTriggerButton st = (0 < js_and (uint (buf ! 8)) 4) \<and>
         RightTriggerButton st = (0 < js_and (uint (buf ! 8)) 8) \<and>
         Create st = (0 < js_and (uint (buf ! 8)) 16) \<and>
         Options st = (0 < js_and (uint (buf ! 8)) 32) \<and>
         LeftAnalogButton st = (0 < js_and (uint (buf ! 8)) 64) \<and>
         RightAnalogButton st = (0 < js_and (uint (buf ! 8)) 128) \<and>
         Playstation st = (0 < js_and (uint (buf ! 9)) 1) \<and>
         TouchButton st = (0 < js_and (uint (buf ! 9)) 2) \<and>
         Mute st = (0 < js_and (uint (buf ! 9)) 4) \<and>
         (LeftBumper st \<or> RightBumper st \<or> LeftTriggerButton st \<or> RightTriggerButton st \<or>
          Create st \<or> Options st \<or> LeftAnalogButton st \<or> RightAnalogButton st
            \<longrightarrow> 0 < LeftTrigger st) \<and>
         (Playstation st \<or> TouchButton st \<or> Mute st \<longrightarrow> 0 < RightTrigger st)"
proof -
  have len: "55 \<le> length buf" using assms by (rule bt_long)
  have f: "LeftTrigger st = mapTrigger (real_of_int (uint (buf ! 8)))"
    "RightTrigger st = mapTrigger (real_of_int (uint (buf ! 9)))"
    "LeftBumper st = (0 < js_and (uint (buf ! 8)) 1)"
    "RightBumper st = (0 < js_and (uint (buf ! 8)) 2)"
    "LeftTriggerButton st = (0 < js_and (uint (buf ! 8)) 4)"
    "RightTriggerButton st = (0 < js_and (uint (buf ! 8)) 8)"
    "Create st = (0 < js_and (uint (buf ! 8)) 16)"
    "Options st = (0 < js_and (uint (buf ! 8)) 32)"
    "LeftAnalogButton st = (0 < js_and (uint (buf ! 8)) 64)"
    "RightAnalogButton st = (0 < js_and (uint (buf ! 8)) 128)"
    "Playstation st = (0 < js_and (uint (buf ! 9)) 1)"
    "TouchButton st = (0 < js_and (uint (buf ! 9)) 2)"
    "Mute st = (0 < js_and (uint (buf ! 9)) 4)"
    using assms len by (auto simp: decode_defs)
  have p: "0 < js_and (uint b) m \<Longrightarrow> 0 \<le> m \<Longrightarrow> m < 2147483648
             \<Longrightarrow> 0 < mapTrigger (real_of_int (uint b))" for b :: "8 word" and m
    by (rule mapTrigger_pos, rule js_and_pos_byte)
  have l: "0 < LeftTrigger st"
    if "LeftBumper st \<or> RightBumper st \<or> LeftTriggerButton st \<or> RightTriggerButton st \<or>
        Create st \<or> Options st \<or> LeftAnalogButton st \<or> RightAnalogButton st"
    using that unfolding f by (elim disjE) (erule p, simp, simp)+
  have r: "0 < RightTrigger st" if "Playstation st \<or> TouchButton st \<or> Mute st"
    using that unfolding f by (elim disjE) (erule p, simp, simp)+
  show ?thesis using f l r by blast
qed

theorem reduced_report_triggers_share_button_bytes_witness:
  "map_option (\<lambda>s. (LeftBumper s, LeftTrigger s, Mute s, RightTrigger s))
     (processBluetoothInputReport01 ((replicate 64 0)[8 := 0x01, 9 := 0x04]))
     = Some (True, 1 / 255, True, 4 / 255)"
proof -
  obtain st where st:
    "processBluetoothInputReport01 ((replicate 64 0)[8 := 0x01, 9 := 0x04]) = Some st"
    by (simp add: decode_defs)
  have a: "js_and 1 1 = 1" "js_and 4 4 = 4" by (simp_all add: js_and_def)
  show ?thesis
    using reduced_report_triggers_share_button_bytes [OF st] st a
    by (simp add: mapTrigger_def)
qed

end
